theory Spec2Isabelle
  imports Complex_Main
begin

section \<open>The SVG render service: data model\<close>

text \<open>
  The development embeds \<^verbatim>\<open>src/app/main.py\<close> and \<^verbatim>\<open>src/app/config.py\<close>.

  A finite Python \<^verbatim>\<open>float\<close> is idealised as a \<^typ>\<open>real\<close>: the rounding of sums,
  products and quotients to 53 bits is left out. The length parser works on these
  numbers. In the Scale Resolver the result of float arithmetic is a \<open>pyfloat\<close>, which
  also has \<^verbatim>\<open>inf\<close>, \<^verbatim>\<open>-inf\<close> and \<^verbatim>\<open>nan\<close>: a result too large for a float is infinite, as
  it is in Python. Python's \<^verbatim>\<open>int\<close> is \<^typ>\<open>int\<close>.
  A Python exception is a value of \<open>exn\<close>; a function that may raise returns
  \<open>exn + 'a\<close>, with \<open>Inl\<close> for the exception raised.
\<close>

datatype exn =
    ValueError string
  | ZeroDivisionError
  | OverflowError
  | RequestException
  | GoogleAPIError
  | OSError

text \<open>The fields of \<^verbatim>\<open>Settings\<close> (config.py) that the modelled functions read.\<close>

record settings =
  api_key :: "string option"
  max_svg_bytes :: int
  min_output_width :: int
  max_output_width :: int
  max_output_height :: int
  prune_after_seconds :: int

text \<open>Sequencing of computations that may raise: the first exception ends the run.\<close>

definition ebind :: "exn + 'a \<Rightarrow> ('a \<Rightarrow> exn + 'b) \<Rightarrow> exn + 'b" where
  "ebind m f = (case m of Inl e \<Rightarrow> Inl e | Inr x \<Rightarrow> f x)"

section \<open>Scale Resolver: \<^verbatim>\<open>_compute_scale\<close>\<close>

text \<open>
  The values of float arithmetic: a finite number, \<^verbatim>\<open>inf\<close>, \<^verbatim>\<open>-inf\<close> or \<^verbatim>\<open>nan\<close>.
\<close>

datatype pyfloat = Fin real | PosInf | NegInf | NaN

text \<open>
  The largest float is \<open>2 ^ 1024 - 2 ^ 971\<close>; rounding to nearest gives infinity from
  half a unit in the last place above it. A float operation whose exact result is \<open>x\<close>
  returns \<open>to_float x\<close>.
\<close>

definition overflow_bound :: real where
  "overflow_bound = 2 ^ 1024 - 2 ^ 970"

definition to_float :: "real \<Rightarrow> pyfloat" where
  "to_float x =
     (if overflow_bound \<le> x then PosInf
      else if x \<le> - overflow_bound then NegInf
      else Fin x)"

text \<open>
  \<^verbatim>\<open>float(n)\<close> for an \<^verbatim>\<open>int\<close>, also where an \<^verbatim>\<open>int\<close> meets a float in a division: an integer
  that rounds beyond the largest float raises \<^verbatim>\<open>OverflowError\<close>.
\<close>

definition in_float_range :: "int \<Rightarrow> bool" where
  "in_float_range n \<longleftrightarrow> \<bar>real_of_int n\<bar> < overflow_bound"

definition float_of_int :: "int \<Rightarrow> exn + real" where
  "float_of_int n = (if in_float_range n then Inr (of_int n) else Inl OverflowError)"

text \<open>
  Division of floats raises \<^verbatim>\<open>ZeroDivisionError\<close> on a zero divisor, where HOL's \<open>x / 0\<close>
  is \<open>0\<close>; a quotient too large is infinite.
\<close>

definition py_div :: "real \<Rightarrow> real \<Rightarrow> exn + pyfloat" where
  "py_div a b = (if b = 0 then Inl ZeroDivisionError else Inr (to_float (a / b)))"

text \<open>\<^verbatim>\<open>n / width\<close> for an \<^verbatim>\<open>int\<close> \<open>n\<close>: the integer is converted first.\<close>

definition int_div :: "int \<Rightarrow> real \<Rightarrow> exn + pyfloat" where
  "int_div n width = ebind (float_of_int n) (\<lambda>a. py_div a width)"

text \<open>\<^verbatim>\<open>width * scale\<close> for a finite \<open>width\<close>.\<close>

fun fmul :: "real \<Rightarrow> pyfloat \<Rightarrow> pyfloat" where
  "fmul a (Fin b) = to_float (a * b)"
| "fmul a PosInf = (if 0 < a then PosInf else if a < 0 then NegInf else NaN)"
| "fmul a NegInf = (if 0 < a then NegInf else if a < 0 then PosInf else NaN)"
| "fmul a NaN = NaN"

text \<open>\<^verbatim>\<open>x > n\<close> for a float \<open>x\<close> and an \<^verbatim>\<open>int\<close> \<open>n\<close>: Python compares the two exactly.\<close>

fun gt_int :: "pyfloat \<Rightarrow> int \<Rightarrow> bool" where
  "gt_int (Fin x) n = (of_int n < x)"
| "gt_int PosInf n = True"
| "gt_int NegInf n = False"
| "gt_int NaN n = False"

text \<open>\<^verbatim>\<open>max(1.0, q)\<close>: \<open>q\<close> when \<^verbatim>\<open>q > 1.0\<close>, else \<^verbatim>\<open>1.0\<close>.\<close>

fun fmax1 :: "pyfloat \<Rightarrow> pyfloat" where
  "fmax1 (Fin q) = (if 1 < q then Fin q else Fin 1)"
| "fmax1 PosInf = PosInf"
| "fmax1 NegInf = Fin 1"
| "fmax1 NaN = Fin 1"

text \<open>
  \<^verbatim>\<open>round(x)\<close> of a finite float: Python 3 rounds to the nearest integer, a tie going to
  the even neighbour.
\<close>

definition py_round :: "real \<Rightarrow> int" where
  "py_round x =
     (let f = \<lfloor>x\<rfloor>; r = x - of_int f
      in if r < 1 / 2 then f
         else if 1 / 2 < r then f + 1
         else if even f then f else f + 1)"

text \<open>
  \<^verbatim>\<open>int(round(x))\<close>: \<^verbatim>\<open>round\<close> raises \<^verbatim>\<open>OverflowError\<close> on an infinity and \<^verbatim>\<open>ValueError\<close> on
  \<^verbatim>\<open>nan\<close>.
\<close>

fun round_to_int :: "pyfloat \<Rightarrow> exn + int" where
  "round_to_int (Fin x) = Inr (py_round x)"
| "round_to_int PosInf = Inl OverflowError"
| "round_to_int NegInf = Inl OverflowError"
| "round_to_int NaN = Inl (ValueError ''cannot convert float NaN to integer'')"

text \<open>
  The arguments \<open>width\<close> and \<open>height\<close> of \<^verbatim>\<open>_compute_scale\<close> are finite floats.

  Lines 90 to 92: a non-positive width or height replaces both by
  \<^verbatim>\<open>float(settings.min_output_width)\<close>.
\<close>

definition substitute_degenerate :: "settings \<Rightarrow> real \<Rightarrow> real \<Rightarrow> exn + real \<times> real" where
  "substitute_degenerate s width height =
     (if width \<le> 0 \<or> height \<le> 0
      then ebind (float_of_int (min_output_width s)) (\<lambda>m. Inr (m, m))
      else Inr (width, height))"

text \<open>
  Lines 94 to 97, on the substituted width: \<^verbatim>\<open>scale = 1.0\<close>, raised to
  \<^verbatim>\<open>max(scale, min_output_width / width)\<close> when \<^verbatim>\<open>width < min_output_width\<close>.
\<close>

definition min_width_step :: "settings \<Rightarrow> real \<Rightarrow> exn + pyfloat" where
  "min_width_step s width =
     (if width < of_int (min_output_width s)
      then ebind (int_div (min_output_width s) width) (\<lambda>q. Inr (fmax1 q))
      else Inr (Fin 1))"

text \<open>The conditions of lines 99 and 102.\<close>

definition max_width_binds :: "settings \<Rightarrow> real \<Rightarrow> pyfloat \<Rightarrow> bool" where
  "max_width_binds s width scale \<longleftrightarrow> gt_int (fmul width scale) (max_output_width s)"

definition max_height_binds :: "settings \<Rightarrow> real \<Rightarrow> pyfloat \<Rightarrow> bool" where
  "max_height_binds s height scale \<longleftrightarrow> gt_int (fmul height scale) (max_output_height s)"

text \<open>Lines 99 and 100.\<close>

definition max_width_step :: "settings \<Rightarrow> real \<Rightarrow> pyfloat \<Rightarrow> exn + pyfloat" where
  "max_width_step s width scale =
     (if max_width_binds s width scale
      then int_div (max_output_width s) width
      else Inr scale)"

text \<open>Lines 102 and 103.\<close>

definition max_height_step :: "settings \<Rightarrow> real \<Rightarrow> pyfloat \<Rightarrow> exn + pyfloat" where
  "max_height_step s height scale =
     (if max_height_binds s height scale
      then int_div (max_output_height s) height
      else Inr scale)"

text \<open>The value of the local variable \<^verbatim>\<open>scale\<close> when line 105 is reached.\<close>

definition final_scale :: "settings \<Rightarrow> real \<Rightarrow> real \<Rightarrow> exn + pyfloat" where
  "final_scale s width height =
     ebind (substitute_degenerate s width height) (\<lambda>(w, h).
     ebind (min_width_step s w) (\<lambda>s1.
     ebind (max_width_step s w s1) (\<lambda>s2.
     max_height_step s h s2)))"

text \<open>
  Lines 105 to 108: both products are rounded and raised to at least 1, the width
  first.
\<close>

definition compute_scale :: "settings \<Rightarrow> real \<Rightarrow> real \<Rightarrow> exn + int \<times> int" where
  "compute_scale s width height =
     ebind (substitute_degenerate s width height) (\<lambda>(w, h).
     ebind (final_scale s width height) (\<lambda>scale.
     ebind (round_to_int (fmul w scale)) (\<lambda>scaled_width.
     ebind (round_to_int (fmul h scale)) (\<lambda>scaled_height.
       Inr (max 1 scaled_width, max 1 scaled_height)))))"



section \<open>Unit Converter and length parser: \<^verbatim>\<open>_parse_svg_length\<close>\<close>

text \<open>
  A Python \<^verbatim>\<open>str\<close> is a \<^typ>\<open>string\<close>; the characters are the code points 0 to 255.
  Among them \<^verbatim>\<open>\s\<close> and \<^verbatim>\<open>str.strip()\<close> take the following for white space, \<^verbatim>\<open>\d\<close>
  matches the ten ASCII digits, and \<^verbatim>\<open>str.lower()\<close> moves A to Z and the upper-case
  letters of Latin-1.
\<close>

definition is_space :: "char \<Rightarrow> bool" where
  "is_space c \<longleftrightarrow>
     c \<in> {CHR 0x09, CHR 0x0A, CHR 0x0B, CHR 0x0C, CHR 0x0D,
          CHR 0x1C, CHR 0x1D, CHR 0x1E, CHR 0x1F, CHR 0x20, CHR 0x85, CHR 0xA0}"

definition is_digit :: "char \<Rightarrow> bool" where
  "is_digit c \<longleftrightarrow> c \<in> set ''0123456789''"

definition digit_value :: "char \<Rightarrow> nat" where
  "digit_value c = of_char c - 48"

definition digits_value :: "string \<Rightarrow> nat" where
  "digits_value ds = foldl (\<lambda>acc c. 10 * acc + digit_value c) 0 ds"

definition py_lower :: "char \<Rightarrow> char" where
  "py_lower c =
     (let n = (of_char c :: nat)
      in if (65 \<le> n \<and> n \<le> 90) \<or> (192 \<le> n \<and> n \<le> 222 \<and> n \<noteq> 215)
         then char_of (n + 32) else c)"

definition py_strip :: "string \<Rightarrow> string" where
  "py_strip t = rev (dropWhile is_space (rev (dropWhile is_space t)))"

definition ends_with_percent :: "string \<Rightarrow> bool" where
  "ends_with_percent t \<longleftrightarrow> t \<noteq> [] \<and> last t = CHR ''%''"

text \<open>The table \<^verbatim>\<open>_SVG_UNIT_TO_PX\<close> (lines 36 to 44).\<close>

definition svg_unit_to_px :: "string \<Rightarrow> real option" where
  "svg_unit_to_px =
     map_of [('''', 1), (''px'', 1), (''pt'', 96 / 72), (''pc'', 16),
             (''mm'', 96 / 25.4), (''cm'', 96 / 2.54), (''in'', 96)]"

text \<open>
  A successful \<^verbatim>\<open>_LENGTH_RE.match(raw_value)\<close>: group 1 is the sign, the digits before
  the point and the digits after it (with the point between them when there are digits
  after it), and \<open>rest_text\<close> is \<^verbatim>\<open>raw_value[match.end():]\<close>.
\<close>

record length_match =
  group_sign :: string
  group_int :: string
  group_frac :: string
  rest_text :: string

definition take_sign :: "string \<Rightarrow> string \<times> string" where
  "take_sign t =
     (case t of
        [] \<Rightarrow> ([], [])
      | c # cs \<Rightarrow> if c = CHR ''-'' \<or> c = CHR ''+'' then ([c], cs) else ([], t))"

text \<open>
  The pattern \<^verbatim>\<open>^\s*([-+]?\d*\.?\d+)\<close>. After the white space and an optional sign,
  \<^verbatim>\<open>\d*\<close> takes every digit; a point followed by a digit is taken with all the digits
  after it; otherwise the engine backtracks \<^verbatim>\<open>\d*\<close> by one digit for \<^verbatim>\<open>\d+\<close>, so the
  match is the run of digits, and there is none when that run is empty.
\<close>

definition length_re_match :: "string \<Rightarrow> length_match option" where
  "length_re_match raw_value =
     (case take_sign (dropWhile is_space raw_value) of (sign, t) \<Rightarrow>
        let ip = takeWhile is_digit t; after_int = dropWhile is_digit t
        in case after_int of
             [] \<Rightarrow> if ip = [] then None
                   else Some \<lparr>group_sign = sign, group_int = ip, group_frac = [],
                               rest_text = []\<rparr>
           | c # cs \<Rightarrow>
               if c = CHR ''.'' \<and> takeWhile is_digit cs \<noteq> []
               then Some \<lparr>group_sign = sign, group_int = ip,
                           group_frac = takeWhile is_digit cs,
                           rest_text = dropWhile is_digit cs\<rparr>
               else if ip = [] then None
               else Some \<lparr>group_sign = sign, group_int = ip, group_frac = [],
                           rest_text = after_int\<rparr>)"

text \<open>\<^verbatim>\<open>float(match.group(1))\<close>, the decimal number read exactly.\<close>

definition float_of_group :: "length_match \<Rightarrow> real" where
  "float_of_group m =
     (if group_sign m = ''-'' then - 1 else 1)
       * (of_nat (digits_value (group_int m))
          + of_nat (digits_value (group_frac m)) / 10 ^ length (group_frac m))"

text \<open>\<^verbatim>\<open>raw_value[match.end():].strip().lower()\<close>\<close>

definition unit_of_match :: "length_match \<Rightarrow> string" where
  "unit_of_match m = map py_lower (py_strip (rest_text m))"

definition parse_svg_length :: "string option \<Rightarrow> real" where
  "parse_svg_length raw_value =
     (case raw_value of
        None \<Rightarrow> 0
      | Some raw \<Rightarrow>
          if raw = [] then 0
          else case length_re_match raw of
                 None \<Rightarrow> 0
               | Some m \<Rightarrow>
                   let v = float_of_group m; unit = unit_of_match m
                   in if ends_with_percent unit then 0
                      else case svg_unit_to_px unit of
                             Some factor \<Rightarrow> v * factor
                           | None \<Rightarrow> v)"

section \<open>Dimension Resolver: \<^verbatim>\<open>_extract_svg_dimensions\<close>\<close>

text \<open>The parsed document, as far as the resolver reads it: \<^verbatim>\<open>tree.get(name)\<close>.\<close>

type_synonym tree = "string \<Rightarrow> string option"

definition is_sep :: "char \<Rightarrow> bool" where
  "is_sep c \<longleftrightarrow> is_space c \<or> c = CHR '',''"

text \<open>
  \<^verbatim>\<open>re.split(r"[\s,]+", text)\<close>: the pieces between the maximal runs of separators,
  an empty piece included where the text begins or ends with a separator. The first
  argument is the piece being read, the second tells whether a run of separators is
  being skipped.
\<close>

fun re_split_seps :: "string \<Rightarrow> bool \<Rightarrow> string \<Rightarrow> string list" where
  "re_split_seps cur in_run [] = [cur]"
| "re_split_seps cur in_run (c # cs) =
     (if is_sep c
      then (if in_run then re_split_seps cur True cs else cur # re_split_seps [] True cs)
      else re_split_seps (cur @ [c]) False cs)"

text \<open>Line 137: the non-empty pieces of the stripped attribute.\<close>

definition view_box_components :: "string \<Rightarrow> string list" where
  "view_box_components view_box =
     filter (\<lambda>part. part \<noteq> []) (re_split_seps [] False (py_strip view_box))"

definition extract_svg_dimensions :: "tree \<Rightarrow> real \<times> real" where
  "extract_svg_dimensions tree =
     (let width = parse_svg_length (tree ''width'');
          height = parse_svg_length (tree ''height'')
      in case tree ''viewBox'' of
           None \<Rightarrow> (width, height)
         | Some view_box \<Rightarrow>
             if view_box = [] then (width, height)
             else let components = view_box_components view_box
                  in if length components = 4
                     then (if width \<le> 0 then parse_svg_length (Some (components ! 2))
                           else width,
                           if height \<le> 0 then parse_svg_length (Some (components ! 3))
                           else height)
                     else (width, height))"

text \<open>
  The number of an attribute text is written with a minus sign: the first character
  after the leading white space is \<^verbatim>\<open>-\<close>.
\<close>

definition minus_signed :: "string \<Rightarrow> bool" where
  "minus_signed raw =
     (case dropWhile is_space raw of [] \<Rightarrow> False | c # _ \<Rightarrow> c = CHR ''-'')"

definition no_minus_sign :: "string option \<Rightarrow> bool" where
  "no_minus_sign attr = (case attr of None \<Rightarrow> True | Some raw \<Rightarrow> \<not> minus_signed raw)"

definition no_minus_component :: "string option \<Rightarrow> bool" where
  "no_minus_component attr =
     (case attr of
        None \<Rightarrow> True
      | Some view_box \<Rightarrow> list_all (\<lambda>part. \<not> minus_signed part) (view_box_components view_box))"

section \<open>Bounded Fetcher: \<^verbatim>\<open>_fetch_svg\<close>\<close>

text \<open>A Python \<^verbatim>\<open>bytes\<close> value is a list of 8-bit characters.\<close>

type_synonym bytes = "char list"

text \<open>\<^verbatim>\<open>bytes.strip()\<close> removes the six ASCII white-space bytes.\<close>

definition is_bspace :: "char \<Rightarrow> bool" where
  "is_bspace c \<longleftrightarrow> c \<in> {CHR 0x09, CHR 0x0A, CHR 0x0B, CHR 0x0C, CHR 0x0D, CHR 0x20}"

definition bytes_strip :: "bytes \<Rightarrow> bytes" where
  "bytes_strip b = rev (dropWhile is_bspace (rev (dropWhile is_bspace b)))"

text \<open>
  What the \<^verbatim>\<open>requests\<close> library hands to the function: \<^verbatim>\<open>requests.get\<close> returns a
  response or raises, and iterating \<^verbatim>\<open>response.iter_content\<close> yields a chunk or raises.
  What the library raises is a \<^verbatim>\<open>requests.RequestException\<close>, its class of errors.
\<close>

datatype stream_item = Chunk bytes | StreamError

record http_response =
  status_code :: int
  content_length :: "string option"
  body :: "stream_item list"

datatype get_result = GetError | Response http_response

text \<open>
  \<^verbatim>\<open>int(text)\<close> in base 10: white space around, an optional sign, then digits in groups
  joined by single underscores; anything else raises \<^verbatim>\<open>ValueError\<close>.
\<close>

fun digit_groups :: "string \<Rightarrow> bool" where
  "digit_groups [] = False"
| "digit_groups [c] = is_digit c"
| "digit_groups (c # d # cs) =
     (is_digit c \<and>
      (if d = CHR ''_''
       then (case cs of [] \<Rightarrow> False | e # _ \<Rightarrow> is_digit e \<and> digit_groups cs)
       else digit_groups (d # cs)))"

definition py_int :: "string \<Rightarrow> exn + int" where
  "py_int text =
     (case take_sign (py_strip text) of (sign, t) \<Rightarrow>
        if digit_groups t
        then Inr ((if sign = ''-'' then - 1 else 1) * int (digits_value (filter is_digit t)))
        else Inl (ValueError ''invalid literal for int()''))"

text \<open>\<^verbatim>\<open>response.raise_for_status()\<close> raises on the statuses 400 to 599.\<close>

definition raise_for_status :: "http_response \<Rightarrow> exn + unit" where
  "raise_for_status r =
     (if 400 \<le> status_code r \<and> status_code r < 600 then Inl RequestException else Inr ())"

text \<open>Lines 68 to 70.\<close>

definition check_content_length :: "settings \<Rightarrow> string option \<Rightarrow> exn + unit" where
  "check_content_length s header =
     (case header of
        None \<Rightarrow> Inr ()
      | Some text \<Rightarrow>
          if text = [] then Inr ()
          else ebind (py_int text) (\<lambda>n.
                 if max_svg_bytes s < n
                 then Inl (ValueError ''SVG exceeds maximum allowed size.'')
                 else Inr ()))"

text \<open>The loop of lines 73 to 78, on the content of \<^verbatim>\<open>buffer\<close>.\<close>

fun read_chunks :: "settings \<Rightarrow> stream_item list \<Rightarrow> bytes \<Rightarrow> exn + bytes" where
  "read_chunks s [] buffer = Inr buffer"
| "read_chunks s (StreamError # rest) buffer = Inl RequestException"
| "read_chunks s (Chunk chunk # rest) buffer =
     (if chunk = [] then read_chunks s rest buffer
      else if max_svg_bytes s < int (length (buffer @ chunk))
           then Inl (ValueError ''SVG exceeds maximum allowed size.'')
           else read_chunks s rest (buffer @ chunk))"

text \<open>All the bytes that a stream delivers, in order.\<close>

fun chunk_data :: "stream_item list \<Rightarrow> bytes" where
  "chunk_data [] = []"
| "chunk_data (Chunk chunk # rest) = chunk @ chunk_data rest"
| "chunk_data (StreamError # rest) = chunk_data rest"

text \<open>The body of the \<^verbatim>\<open>try\<close> statement, lines 61 to 84.\<close>

definition fetch_attempt :: "settings \<Rightarrow> get_result \<Rightarrow> exn + bytes" where
  "fetch_attempt s g =
     (case g of
        GetError \<Rightarrow> Inl RequestException
      | Response r \<Rightarrow>
          ebind (raise_for_status r) (\<lambda>_.
          ebind (check_content_length s (content_length r)) (\<lambda>_.
          ebind (read_chunks s (body r) []) (\<lambda>svg_bytes.
            if bytes_strip svg_bytes = []
            then Inl (ValueError ''SVG document is empty.'')
            else Inr svg_bytes))))"

text \<open>
  Lines 85 and 86: a \<^verbatim>\<open>RequestException\<close> is raised again as a \<^verbatim>\<open>ValueError\<close>; any
  other exception passes.
\<close>

definition fetch_svg :: "settings \<Rightarrow> get_result \<Rightarrow> exn + bytes" where
  "fetch_svg s g =
     (case fetch_attempt s g of
        Inl e \<Rightarrow> if e = RequestException then Inl (ValueError ''Unable to download SVG'')
                 else Inl e
      | Inr svg_bytes \<Rightarrow> Inr svg_bytes)"

section \<open>Pruner: \<^verbatim>\<open>_prune_old_files\<close>\<close>

text \<open>
  A stored object as the listing shows it. Times are microseconds since the epoch, the
  resolution of \<^verbatim>\<open>datetime\<close>; \<^verbatim>\<open>time_created\<close> may be \<^verbatim>\<open>None\<close>.
\<close>

record blob =
  name :: string
  time_created :: "int option"

text \<open>
  The object store as the pruner meets it. Iterating \<^verbatim>\<open>bucket.list_blobs(prefix)\<close>
  yields a blob or fails; \<^verbatim>\<open>blob.delete()\<close> succeeds or fails. A failing call of the
  storage client raises \<^verbatim>\<open>GoogleAPIError\<close>, its class of errors.
\<close>

datatype list_item = Listed blob | ListError

record store =
  listing :: "list_item list"
  delete_fails :: "blob \<Rightarrow> bool"

text \<open>
  The state of the pass: the counter \<^verbatim>\<open>deleted\<close>, and the blobs whose deletion
  succeeded, in order.
\<close>

record prune_state =
  deleted :: nat
  removed :: "blob list"

text \<open>Lines 188 to 190: the blob has a creation time, and it is before the cutoff.\<close>

definition stale :: "int \<Rightarrow> blob \<Rightarrow> bool" where
  "stale cutoff b = (case time_created b of None \<Rightarrow> False | Some t \<Rightarrow> t < cutoff)"

text \<open>
  The loop of lines 187 to 193. The result is the exception that ended the loop, if
  any, and the state reached.
\<close>

fun prune_loop ::
  "(blob \<Rightarrow> bool) \<Rightarrow> int \<Rightarrow> list_item list \<Rightarrow> prune_state \<Rightarrow> exn option \<times> prune_state"
where
  "prune_loop fails cutoff [] st = (None, st)"
| "prune_loop fails cutoff (ListError # rest) st = (Some GoogleAPIError, st)"
| "prune_loop fails cutoff (Listed b # rest) st =
     (if \<not> stale cutoff b then prune_loop fails cutoff rest st
      else if fails b then (Some GoogleAPIError, st)
      else prune_loop fails cutoff rest
             (st\<lparr>deleted := deleted st + 1, removed := removed st @ [b]\<rparr>))"




text \<open>Line 183: \<^verbatim>\<open>now - timedelta(seconds=settings.prune_after_seconds)\<close>.\<close>

definition cutoff_of :: "settings \<Rightarrow> int \<Rightarrow> int" where
  "cutoff_of s now = now - prune_after_seconds s * 1000000"

text \<open>
  \<^verbatim>\<open>_prune_old_files(now)\<close>: the count returned or the exception raised, and the blobs
  removed from the store. The \<^verbatim>\<open>except\<close> clause of line 194 catches \<^verbatim>\<open>GoogleAPIError\<close>
  only.
\<close>

definition prune_old_files :: "settings \<Rightarrow> store \<Rightarrow> int \<Rightarrow> (exn + nat) \<times> blob list" where
  "prune_old_files s st now =
     (let cutoff = cutoff_of s now
      in case prune_loop (delete_fails st) cutoff (listing st) \<lparr>deleted = 0, removed = []\<rparr> of
           (raised, fin) \<Rightarrow>
             (case raised of
                None \<Rightarrow> (Inr (deleted fin), removed fin)
              | Some e \<Rightarrow>
                  if e = GoogleAPIError then (Inr (deleted fin), removed fin)
                  else (Inl e, removed fin)))"

section \<open>Render Orchestrator: \<^verbatim>\<open>render_svg\<close>\<close>

text \<open>
  The collaborators outside the model, each a function of what the code passes to it:
  \<^verbatim>\<open>urlparse\<close> behind \<^verbatim>\<open>_validate_url\<close>, \<^verbatim>\<open>requests.get\<close>, the parser
  \<^verbatim>\<open>Tree(bytestring=...)\<close>, \<^verbatim>\<open>svg2png\<close>, and \<^verbatim>\<open>_upload_png\<close> with its random object
  name and signed link.
\<close>

record collaborators =
  validate_url :: "string \<Rightarrow> bool"
  http_get :: "string \<Rightarrow> get_result"
  parse_tree :: "bytes \<Rightarrow> exn + tree"
  svg2png :: "bytes \<Rightarrow> int \<Rightarrow> int \<Rightarrow> exn + bytes"
  upload_png :: "bytes \<Rightarrow> exn + string \<times> string"
  bucket :: store
  clock :: int

record render_request =
  provided_key :: "string option"
  svg_url :: "string option"

datatype response_body =
    ErrorBody string
  | RenderBody (png_url: string) (object_name: string)
      (dim_width: int) (dim_height: int) (pruned_files: nat)

text \<open>
  What the view function does: it returns a body with a status, or an exception leaves
  it.
\<close>

datatype reply = Reply int response_body | Propagated exn

definition is_authorized :: "settings \<Rightarrow> string option \<Rightarrow> bool" where
  "is_authorized s key =
     (case key of None \<Rightarrow> False | Some k \<Rightarrow> k \<noteq> [] \<and> Some k = api_key s)"

definition convert_svg_to_png ::
  "settings \<Rightarrow> collaborators \<Rightarrow> bytes \<Rightarrow> exn + bytes \<times> int \<times> int" where
  "convert_svg_to_png s env svg_bytes =
     ebind (parse_tree env svg_bytes) (\<lambda>tree.
       case extract_svg_dimensions tree of (width, height) \<Rightarrow>
         ebind (compute_scale s width height) (\<lambda>(target_width, target_height).
         ebind (svg2png env svg_bytes target_width target_height) (\<lambda>png_bytes.
           Inr (png_bytes, target_width, target_height))))"

text \<open>The \<^verbatim>\<open>try\<close> body of lines 213 to 215.\<close>

definition render_attempt ::
  "settings \<Rightarrow> collaborators \<Rightarrow> string \<Rightarrow> exn + (int \<times> int) \<times> string \<times> string" where
  "render_attempt s env url =
     ebind (fetch_svg s (http_get env url)) (\<lambda>svg_bytes.
     ebind (convert_svg_to_png s env svg_bytes) (\<lambda>(png_bytes, width, height).
     ebind (upload_png env png_bytes) (\<lambda>(blob_name, signed_url).
       Inr ((width, height), blob_name, signed_url))))"

text \<open>
  Lines 216 to 221. \<^verbatim>\<open>requests.RequestException\<close> is a subclass of \<^verbatim>\<open>OSError\<close>;
  \<^verbatim>\<open>ZeroDivisionError\<close> and \<^verbatim>\<open>OverflowError\<close> are neither a \<^verbatim>\<open>ValueError\<close> nor an
  \<^verbatim>\<open>OSError\<close>, and leave the view function.
\<close>

definition handle_render_error :: "exn \<Rightarrow> reply" where
  "handle_render_error e =
     (case e of
        ValueError msg \<Rightarrow> Reply 400 (ErrorBody msg)
      | GoogleAPIError \<Rightarrow> Reply 500 (ErrorBody ''Failed to render SVG.'')
      | OSError \<Rightarrow> Reply 500 (ErrorBody ''Failed to render SVG.'')
      | RequestException \<Rightarrow> Reply 500 (ErrorBody ''Failed to render SVG.'')
      | ZeroDivisionError \<Rightarrow> Propagated ZeroDivisionError
      | OverflowError \<Rightarrow> Propagated OverflowError)"

definition render_svg :: "settings \<Rightarrow> collaborators \<Rightarrow> render_request \<Rightarrow> reply" where
  "render_svg s env req =
     (if \<not> is_authorized s (provided_key req) then Reply 401 (ErrorBody ''Unauthorized'')
      else case svg_url req of
             None \<Rightarrow> Reply 400 (ErrorBody ''svg_url must be a valid HTTP(S) URL.'')
           | Some url \<Rightarrow>
               if url = [] \<or> \<not> validate_url env url
               then Reply 400 (ErrorBody ''svg_url must be a valid HTTP(S) URL.'')
               else case render_attempt s env url of
                      Inl e \<Rightarrow> handle_render_error e
                    | Inr ((width, height), blob_name, signed_url) \<Rightarrow>
                        (case fst (prune_old_files s (bucket env) (clock env)) of
                           Inl e \<Rightarrow> Propagated e
                         | Inr n \<Rightarrow>
                             Reply 200 (RenderBody signed_url blob_name width height n)))"

text \<open>The defaults of config.py, with an API key set.\<close>

definition default_settings :: settings where
  "default_settings =
     \<lparr>api_key = Some ''secret'', max_svg_bytes = 5 * 1024 * 1024,
      min_output_width = 512, max_output_width = 4096, max_output_height = 4096,
      prune_after_seconds = 24 * 3600\<rparr>"


text \<open>A configuration with a ceiling of eight bytes, and sample collaborators.\<close>

definition tiny_ceiling_settings :: settings where
  "tiny_ceiling_settings = default_settings\<lparr>max_svg_bytes := 8\<rparr>"

definition not_found_response :: get_result where
  "not_found_response =
     Response \<lparr>status_code = 404, content_length = None, body = [Chunk ''not found'']\<rparr>"

definition sample_tree :: tree where
  "sample_tree = [''width'' \<mapsto> ''100'', ''height'' \<mapsto> ''50'']"

definition sample_env :: "get_result \<Rightarrow> store \<Rightarrow> collaborators" where
  "sample_env g st =
     \<lparr>validate_url = (\<lambda>url. True), http_get = (\<lambda>url. g),
      parse_tree = (\<lambda>svg_bytes. Inr sample_tree),
      svg2png = (\<lambda>svg_bytes w h. Inr ''PNG''),
      upload_png = (\<lambda>png_bytes. Inr (''renders/0f.png'', ''https://signed'')),
      bucket = st, clock = 1000000000000\<rparr>"

definition sample_request :: render_request where
  "sample_request = \<lparr>provided_key = Some ''secret'', svg_url = Some ''http://host/a.svg''\<rparr>"

definition declared_too_large :: http_response where
  "declared_too_large = \<lparr>status_code = 200, content_length = Some ''10000000'', body = []\<rparr>"

definition streamed_too_large :: http_response where
  "streamed_too_large =
     \<lparr>status_code = 200, content_length = None,
      body = [Chunk ''<svg>'', Chunk ''</svg>'', Chunk ''tail'']\<rparr>"

definition broken_stream :: http_response where
  "broken_stream =
     \<lparr>status_code = 200, content_length = None, body = [Chunk ''<svg'', StreamError]\<rparr>"

definition blank_body :: http_response where
  "blank_body =
     \<lparr>status_code = 200, content_length = None,
      body = [Chunk ''  '', Chunk [], Chunk [CHR 0x0A]]\<rparr>"

definition good_response :: http_response where
  "good_response =
     \<lparr>status_code = 200, content_length = Some ''11'',
      body = [Chunk ''<svg>'', Chunk ''</svg>'']\<rparr>"

definition empty_store :: store where
  "empty_store = \<lparr>listing = [], delete_fails = (\<lambda>b. False)\<rparr>"









text \<open>
  The attribute text \<^verbatim>\<open>0.\<close>, 319 zeros, \<^verbatim>\<open>1\<close>, which is the number \<open>1 / 10 ^ 320\<close>, and a
  document with this width and height.
\<close>

definition tiny_length :: real where
  "tiny_length = 1 / 10 ^ 320"

definition tiny_length_text :: string where
  "tiny_length_text = ''0.'' @ replicate 319 (CHR ''0'') @ ''1''"

definition tiny_tree :: tree where
  "tiny_tree = [''width'' \<mapsto> tiny_length_text, ''height'' \<mapsto> tiny_length_text]"

definition tiny_env :: collaborators where
  "tiny_env = (sample_env (Response good_response) empty_store)
                \<lparr>parse_tree := (\<lambda>svg_bytes. Inr tiny_tree)\<rparr>"

section \<open>Properties of the Scale Resolver\<close>






lemma diff_pos_less: "0 < b \<Longrightarrow> a - b < (a :: real)"
  by simp

lemma overflow_bound_lt: "overflow_bound < 2 ^ 1024"
  unfolding overflow_bound_def by (rule diff_pos_less) (rule zero_less_power, simp)

lemma overflow_bound_ge: "2 ^ 1023 \<le> overflow_bound"
proof -
  have a: "(2 :: real) ^ 1024 = 2 * 2 ^ 1023"
  proof -
    have "(1024 :: nat) = Suc 1023" by simp
    then show ?thesis by (simp only: power_Suc)
  qed
  have b: "(2 :: real) ^ 970 \<le> 2 ^ 1023"
    by (rule power_increasing) simp_all
  from a b show ?thesis unfolding overflow_bound_def by linarith
qed

lemma overflow_bound_gt_small: "(2 :: real) ^ 20 < overflow_bound"
proof -
  have "(2 :: real) ^ 20 < 2 ^ 1023" by (rule power_strict_increasing) simp_all
  with overflow_bound_ge show ?thesis by linarith
qed

lemma overflow_bound_pos: "0 < overflow_bound"
proof -
  have "(0 :: real) < 2 ^ 20" by (rule zero_less_power) simp
  with overflow_bound_gt_small show ?thesis by linarith
qed

lemma overflow_bound_le_ten_pow: "overflow_bound \<le> 10 ^ 320"
proof -
  have "(2 :: real) ^ 1024 = (2 ^ 16) ^ 64" by (simp only: power_mult [symmetric]) simp
  also have "\<dots> \<le> (10 ^ 5) ^ 64" by (rule power_mono) simp_all
  also have "\<dots> = 10 ^ 320" by (simp only: power_mult [symmetric]) simp
  finally have "(2 :: real) ^ 1024 \<le> 10 ^ 320" .
  with overflow_bound_lt show ?thesis by linarith
qed


lemma to_float_PosInf: "overflow_bound \<le> x \<Longrightarrow> to_float x = PosInf"
  by (simp add: to_float_def)



lemma in_float_range_small: "\<bar>n\<bar> \<le> 2 ^ 20 \<Longrightarrow> in_float_range n"
proof -
  assume "\<bar>n\<bar> \<le> 2 ^ 20"
  then have "real_of_int \<bar>n\<bar> \<le> real_of_int (2 ^ 20)" by (simp only: of_int_le_iff)
  then have "\<bar>real_of_int n\<bar> \<le> 2 ^ 20" by simp
  with overflow_bound_gt_small show ?thesis unfolding in_float_range_def by linarith
qed

lemma int_div_cases:
  assumes "w \<noteq> 0"
  obtains (raised) "int_div n w = Inl OverflowError" "\<not> in_float_range n"
  | (returned) "int_div n w = Inr (to_float (of_int n / w))" "in_float_range n"
  using assms by (cases "in_float_range n") (simp_all add: int_div_def float_of_int_def py_div_def ebind_def)








lemma compute_scale_steps:
  assumes "substitute_degenerate s width height = Inr (w, h)"
  shows "final_scale s width height
           = ebind (min_width_step s w) (\<lambda>s1.
             ebind (max_width_step s w s1) (\<lambda>s2.
             max_height_step s h s2))"
    and "compute_scale s width height
           = ebind (final_scale s width height) (\<lambda>scale.
             ebind (round_to_int (fmul w scale)) (\<lambda>scaled_width.
             ebind (round_to_int (fmul h scale)) (\<lambda>scaled_height.
               Inr (max 1 scaled_width, max 1 scaled_height))))"
  using assms by (simp_all add: compute_scale_def final_scale_def ebind_def)

lemma substitute_degenerate_cases:
  obtains (regular) "0 < width" "0 < height"
      "substitute_degenerate s width height = Inr (width, height)"
  | (raised) "width \<le> 0 \<or> height \<le> 0" "\<not> in_float_range (min_output_width s)"
      "substitute_degenerate s width height = Inl OverflowError"
  | (fallback) "width \<le> 0 \<or> height \<le> 0" "in_float_range (min_output_width s)"
      "substitute_degenerate s width height
         = Inr (of_int (min_output_width s), of_int (min_output_width s))"
proof (cases "width \<le> 0 \<or> height \<le> 0")
  case False
  then show ?thesis using regular by (simp add: substitute_degenerate_def)
next
  case True
  then show ?thesis using raised fallback
    by (cases "in_float_range (min_output_width s)")
      (simp_all add: substitute_degenerate_def float_of_int_def ebind_def)
qed










section \<open>Properties of the length parser and the Dimension Resolver\<close>

lemma length_re_match_Nil: "length_re_match [] = None"
  by (simp add: length_re_match_def take_sign_def)

lemma parse_svg_length_matched:
  assumes "length_re_match raw = Some m"
  shows "parse_svg_length (Some raw) =
           (if ends_with_percent (unit_of_match m) then 0
            else float_of_group m
                   * (case svg_unit_to_px (unit_of_match m) of Some f \<Rightarrow> f | None \<Rightarrow> 1))"
proof -
  from assms have "raw \<noteq> []" using length_re_match_Nil by auto
  with assms show ?thesis
    by (simp add: parse_svg_length_def Let_def split: option.split)
qed

lemma svg_unit_to_px_entries: "svg_unit_to_px '''' = Some 1 \<and> svg_unit_to_px ''px'' = Some 1
   \<and> svg_unit_to_px ''pt'' = Some (96 / 72) \<and> svg_unit_to_px ''pc'' = Some 16
   \<and> svg_unit_to_px ''mm'' = Some (96 / 25.4) \<and> svg_unit_to_px ''cm'' = Some (96 / 2.54)
   \<and> svg_unit_to_px ''in'' = Some 96"
    by (simp add: svg_unit_to_px_def)

lemma svg_unit_to_px_dom:
  "dom svg_unit_to_px = {'''', ''px'', ''pt'', ''pc'', ''mm'', ''cm'', ''in''}"
  unfolding svg_unit_to_px_def dom_map_of_conv_image_fst by simp

lemma parse_10pt: "parse_svg_length (Some ''10pt'') = 10 * 96 / 72" by code_simp
lemma parse_5cm: "parse_svg_length (Some ''5cm'') = 5 * 96 / 2.54" by code_simp
lemma parse_10foo: "parse_svg_length (Some ''10foo'') = 10" by code_simp

text \<open>
  Claim C4. \<^verbatim>\<open>_parse_svg_length\<close> implements the unit table exactly: px and the empty
  unit are 1.0, pt is 96/72, pc is 16.0, mm is 96/25.4, cm is 96/2.54, in is 96.0, and
  the table has no other key. \<^verbatim>\<open>"10pt"\<close> is 10 * 96/72, \<^verbatim>\<open>"5cm"\<close> is 5 * 96/2.54 and
  \<^verbatim>\<open>"10foo"\<close> is 10. For every text with a leading number: a unit that ends with a
  percent sign gives 0; any other unit gives the number times its factor in the table,
  and times 1 when the table has no such unit.
\<close>

theorem parse_svg_length_unit_table:
  "(svg_unit_to_px '''' = Some 1 \<and> svg_unit_to_px ''px'' = Some 1
   \<and> svg_unit_to_px ''pt'' = Some (96 / 72) \<and> svg_unit_to_px ''pc'' = Some 16
   \<and> svg_unit_to_px ''mm'' = Some (96 / 25.4) \<and> svg_unit_to_px ''cm'' = Some (96 / 2.54)
   \<and> svg_unit_to_px ''in'' = Some 96)
   \<and> dom svg_unit_to_px = {'''', ''px'', ''pt'', ''pc'', ''mm'', ''cm'', ''in''}
   \<and> parse_svg_length (Some ''10pt'') = 10 * 96 / 72
   \<and> parse_svg_length (Some ''5cm'') = 5 * 96 / 2.54
   \<and> parse_svg_length (Some ''10foo'') = 10
   \<and> (length_re_match raw = Some m \<longrightarrow>
        (ends_with_percent (unit_of_match m) \<longrightarrow> parse_svg_length (Some raw) = 0)
        \<and> (\<not> ends_with_percent (unit_of_match m) \<longrightarrow>
             parse_svg_length (Some raw)
               = float_of_group m
                   * (case svg_unit_to_px (unit_of_match m) of Some f \<Rightarrow> f | None \<Rightarrow> 1)))"
proof (intro conjI impI)
  assume "length_re_match raw = Some m" "ends_with_percent (unit_of_match m)"
  then show "parse_svg_length (Some raw) = 0" by (simp add: parse_svg_length_matched)
next
  assume "length_re_match raw = Some m" "\<not> ends_with_percent (unit_of_match m)"
  then show "parse_svg_length (Some raw)
               = float_of_group m
                   * (case svg_unit_to_px (unit_of_match m) of Some f \<Rightarrow> f | None \<Rightarrow> 1)"
    by (simp add: parse_svg_length_matched)
qed (simp_all only: svg_unit_to_px_entries svg_unit_to_px_dom parse_10pt parse_5cm parse_10foo)

theorem parse_svg_length_unit_table_witness:
  "length_re_match ''50%''
     = Some \<lparr>group_sign = [], group_int = ''50'', group_frac = [], rest_text = ''%''\<rparr>
   \<and> ends_with_percent
        (unit_of_match \<lparr>group_sign = [], group_int = ''50'', group_frac = [], rest_text = ''%''\<rparr>)
   \<and> parse_svg_length (Some ''50%'') = 0
   \<and> length_re_match ''7.5 MM''
       = Some \<lparr>group_sign = [], group_int = ''7'', group_frac = ''5'', rest_text = '' MM''\<rparr>
   \<and> \<not> ends_with_percent
          (unit_of_match
             \<lparr>group_sign = [], group_int = ''7'', group_frac = ''5'', rest_text = '' MM''\<rparr>)
   \<and> parse_svg_length (Some ''7.5 MM'') = 7.5 * (96 / 25.4)"
proof -
  let ?m1 = "\<lparr>group_sign = [], group_int = ''50'', group_frac = [], rest_text = ''%''\<rparr>"
  let ?m2 = "\<lparr>group_sign = [], group_int = ''7'', group_frac = ''5'', rest_text = '' MM''\<rparr>"
  have m1: "length_re_match ''50%'' = Some ?m1" by code_simp
  have p1: "ends_with_percent (unit_of_match ?m1)" by code_simp
  have m2: "length_re_match ''7.5 MM'' = Some ?m2" by code_simp
  have p2: "\<not> ends_with_percent (unit_of_match ?m2)" by code_simp
  have v2: "float_of_group ?m2
              * (case svg_unit_to_px (unit_of_match ?m2) of Some f \<Rightarrow> f | None \<Rightarrow> 1)
            = 7.5 * (96 / 25.4)" by code_simp
  have r1: "parse_svg_length (Some ''50%'') = 0"
    using parse_svg_length_unit_table [of "''50%''" ?m1] m1 p1 by (elim conjE) blast
  have "parse_svg_length (Some ''7.5 MM'')
          = float_of_group ?m2
              * (case svg_unit_to_px (unit_of_match ?m2) of Some f \<Rightarrow> f | None \<Rightarrow> 1)"
    using parse_svg_length_unit_table [of "''7.5 MM''" ?m2] m2 p2 by (elim conjE) blast
  from this v2 have r2: "parse_svg_length (Some ''7.5 MM'') = 7.5 * (96 / 25.4)" by (rule trans)
  from m1 p1 r1 m2 p2 r2 show ?thesis by (intro conjI)
qed

lemma length_re_match_sign:
  "length_re_match raw = Some m \<Longrightarrow> group_sign m = fst (take_sign (dropWhile is_space raw))"
  by (auto simp: length_re_match_def Let_def split: prod.splits list.splits if_splits)

lemma take_sign_minus:
  "fst (take_sign t) = ''-'' \<longleftrightarrow> (case t of [] \<Rightarrow> False | c # _ \<Rightarrow> c = CHR ''-'')"
  by (cases t) (simp_all add: take_sign_def)

lemma minus_signed_iff:
  "minus_signed raw \<longleftrightarrow> fst (take_sign (dropWhile is_space raw)) = ''-''"
  by (simp only: minus_signed_def take_sign_minus)

lemma group_magnitude_nonneg:
  "0 \<le> real (digits_value (group_int m))
         + real (digits_value (group_frac m)) / 10 ^ length (group_frac m)"
  by (intro add_nonneg_nonneg divide_nonneg_nonneg) simp_all

lemma float_of_group_nonneg: "group_sign m \<noteq> ''-'' \<Longrightarrow> 0 \<le> float_of_group m"
  using group_magnitude_nonneg [of m] by (simp add: float_of_group_def)

lemma float_of_group_nonpos:
  assumes "group_sign m = ''-''"
  shows "float_of_group m \<le> 0"
proof -
  have "float_of_group m
          = - (real (digits_value (group_int m))
               + real (digits_value (group_frac m)) / 10 ^ length (group_frac m))"
    using assms by (simp add: float_of_group_def)
  with group_magnitude_nonneg [of m] show ?thesis by linarith
qed

lemma unit_factor_pos:
  "0 < (case svg_unit_to_px u of Some f \<Rightarrow> f | None \<Rightarrow> (1 :: real))"
  by (simp add: svg_unit_to_px_def)

lemma parse_svg_length_nonneg:
  assumes "\<not> minus_signed raw"
  shows "0 \<le> parse_svg_length (Some raw)"
proof (cases "length_re_match raw")
  case None
  then show ?thesis by (simp add: parse_svg_length_def)
next
  case (Some m)
  with assms have "group_sign m \<noteq> ''-''"
    by (simp add: minus_signed_iff length_re_match_sign)
  then have "0 \<le> float_of_group m" by (rule float_of_group_nonneg)
  with unit_factor_pos [of "unit_of_match m"] show ?thesis
    by (simp add: parse_svg_length_matched [OF Some])
qed

lemma parse_svg_length_nonpos:
  assumes "minus_signed raw"
  shows "parse_svg_length (Some raw) \<le> 0"
proof (cases "length_re_match raw")
  case None
  then show ?thesis by (simp add: parse_svg_length_def)
next
  case (Some m)
  with assms have "group_sign m = ''-''"
    by (simp add: minus_signed_iff length_re_match_sign)
  then have "float_of_group m \<le> 0" by (rule float_of_group_nonpos)
  with unit_factor_pos [of "unit_of_match m"] show ?thesis
    by (simp add: parse_svg_length_matched [OF Some] mult_le_0_iff)
qed

lemma parse_svg_length_attr_nonneg: "no_minus_sign attr \<Longrightarrow> 0 \<le> parse_svg_length attr"
  by (cases attr) (simp_all add: no_minus_sign_def parse_svg_length_nonneg, simp add: parse_svg_length_def)

lemma parse_svg_length_None: "parse_svg_length None = 0"
  by (simp add: parse_svg_length_def)

lemma extract_fst_cases:
  "fst (extract_svg_dimensions tree) = parse_svg_length (tree ''width'')
   \<or> (\<exists>vb. tree ''viewBox'' = Some vb \<and> length (view_box_components vb) = 4
          \<and> fst (extract_svg_dimensions tree)
              = parse_svg_length (Some (view_box_components vb ! 2)))"
  by (simp add: extract_svg_dimensions_def Let_def split: option.split)

lemma extract_snd_cases:
  "snd (extract_svg_dimensions tree) = parse_svg_length (tree ''height'')
   \<or> (\<exists>vb. tree ''viewBox'' = Some vb \<and> length (view_box_components vb) = 4
          \<and> snd (extract_svg_dimensions tree)
              = parse_svg_length (Some (view_box_components vb ! 3)))"
  by (simp add: extract_svg_dimensions_def Let_def split: option.split)

lemma component_nonneg:
  assumes "no_minus_component (Some vb)" and "i < length (view_box_components vb)"
  shows "0 \<le> parse_svg_length (Some (view_box_components vb ! i))"
proof -
  from assms have "\<not> minus_signed (view_box_components vb ! i)"
    by (simp add: no_minus_component_def list_all_length)
  then show ?thesis by (rule parse_svg_length_nonneg)
qed

lemma extract_nonneg:
  assumes w: "no_minus_sign (tree ''width'')" and h: "no_minus_sign (tree ''height'')"
    and v: "no_minus_component (tree ''viewBox'')"
  shows "0 \<le> fst (extract_svg_dimensions tree)" and "0 \<le> snd (extract_svg_dimensions tree)"
proof -
  from extract_fst_cases [of tree] show "0 \<le> fst (extract_svg_dimensions tree)"
  proof (elim disjE exE conjE)
    assume "fst (extract_svg_dimensions tree) = parse_svg_length (tree ''width'')"
    with parse_svg_length_attr_nonneg [OF w] show ?thesis by simp
  next
    fix vb
    assume a: "tree ''viewBox'' = Some vb" "length (view_box_components vb) = 4"
      and e: "fst (extract_svg_dimensions tree)
                = parse_svg_length (Some (view_box_components vb ! 2))"
    from a have "2 < length (view_box_components vb)" by simp
    moreover from v a(1) have "no_minus_component (Some vb)" by simp
    ultimately have "0 \<le> parse_svg_length (Some (view_box_components vb ! 2))"
      by (simp add: component_nonneg)
    with e show ?thesis by simp
  qed
  from extract_snd_cases [of tree] show "0 \<le> snd (extract_svg_dimensions tree)"
  proof (elim disjE exE conjE)
    assume "snd (extract_svg_dimensions tree) = parse_svg_length (tree ''height'')"
    with parse_svg_length_attr_nonneg [OF h] show ?thesis by simp
  next
    fix vb
    assume a: "tree ''viewBox'' = Some vb" "length (view_box_components vb) = 4"
      and e: "snd (extract_svg_dimensions tree)
                = parse_svg_length (Some (view_box_components vb ! 3))"
    from a have "3 < length (view_box_components vb)" by simp
    moreover from v a(1) have "no_minus_component (Some vb)" by simp
    ultimately have "0 \<le> parse_svg_length (Some (view_box_components vb ! 3))"
      by (simp add: component_nonneg)
    with e show ?thesis by simp
  qed
qed

text \<open>
  Claim C9 says that no attribute text ever gives a negative width or height. The
  pattern of line 45 accepts a sign: \<^verbatim>\<open>"-5"\<close> parses to -5.0, and a document with
  \<^verbatim>\<open>width="-5"\<close>, \<^verbatim>\<open>height="10"\<close> and no \<^verbatim>\<open>viewBox\<close> has the intrinsic size (-5.0, 10.0).
\<close>

theorem negative_length_counterexample:
  "parse_svg_length (Some ''-5'') = - 5
   \<and> extract_svg_dimensions [''width'' \<mapsto> ''-5'', ''height'' \<mapsto> ''10''] = (- 5, 10)
   \<and> fst (extract_svg_dimensions [''width'' \<mapsto> ''-5'', ''height'' \<mapsto> ''10'']) < 0"
  by code_simp

text \<open>
  Claim C9, amended. \<^verbatim>\<open>_parse_svg_length\<close> returns a non-negative number for every
  text whose number is not written with a minus sign, a non-positive number for a text
  whose number is, and 0 for an absent attribute. For every document in which neither
  \<^verbatim>\<open>width\<close>, nor \<^verbatim>\<open>height\<close>, nor a component of \<^verbatim>\<open>viewBox\<close> is written with a minus sign,
  both components of the intrinsic size are non-negative.
\<close>

theorem intrinsic_size_sign:
  "(\<not> minus_signed raw \<longrightarrow> 0 \<le> parse_svg_length (Some raw))
   \<and> (minus_signed raw \<longrightarrow> parse_svg_length (Some raw) \<le> 0)
   \<and> parse_svg_length None = 0
   \<and> (no_minus_sign (tree ''width'') \<and> no_minus_sign (tree ''height'')
        \<and> no_minus_component (tree ''viewBox'')
      \<longrightarrow> 0 \<le> fst (extract_svg_dimensions tree) \<and> 0 \<le> snd (extract_svg_dimensions tree))"
  using parse_svg_length_nonneg [of raw] parse_svg_length_nonpos [of raw]
    parse_svg_length_None extract_nonneg [of tree]
  by (intro conjI impI) simp_all

theorem intrinsic_size_sign_witness:
  "\<not> minus_signed '' +12.5pt'' \<and> 0 \<le> parse_svg_length (Some '' +12.5pt'')
   \<and> minus_signed '' -3mm'' \<and> parse_svg_length (Some '' -3mm'') \<le> 0
   \<and> no_minus_sign ([''width'' \<mapsto> ''0'', ''viewBox'' \<mapsto> ''0 0 200 100''] ''width'')
   \<and> no_minus_sign ([''width'' \<mapsto> ''0'', ''viewBox'' \<mapsto> ''0 0 200 100''] ''height'')
   \<and> no_minus_component ([''width'' \<mapsto> ''0'', ''viewBox'' \<mapsto> ''0 0 200 100''] ''viewBox'')
   \<and> 0 \<le> fst (extract_svg_dimensions [''width'' \<mapsto> ''0'', ''viewBox'' \<mapsto> ''0 0 200 100''])
   \<and> 0 \<le> snd (extract_svg_dimensions [''width'' \<mapsto> ''0'', ''viewBox'' \<mapsto> ''0 0 200 100''])"
proof -
  let ?t = "[''width'' \<mapsto> ''0'', ''viewBox'' \<mapsto> ''0 0 200 100'']"
  have a: "\<not> minus_signed '' +12.5pt''" by code_simp
  have b: "minus_signed '' -3mm''" by code_simp
  have c: "no_minus_sign (?t ''width'')" "no_minus_sign (?t ''height'')"
    "no_minus_component (?t ''viewBox'')" by code_simp+
  note t1 = intrinsic_size_sign [of "'' +12.5pt''" ?t]
  note t2 = intrinsic_size_sign [of "'' -3mm''" ?t]
  from t1 a have r1: "0 \<le> parse_svg_length (Some '' +12.5pt'')" by (elim conjE) blast
  from t2 b have r2: "parse_svg_length (Some '' -3mm'') \<le> 0" by (elim conjE) blast
  from t1 c have r3: "0 \<le> fst (extract_svg_dimensions ?t) \<and> 0 \<le> snd (extract_svg_dimensions ?t)"
    by (elim conjE) blast
  from a r1 b r2 c r3 show ?thesis by (intro conjI) (elim conjE, assumption)+
qed

lemma extract_positive_attrs:
  assumes "0 < parse_svg_length (tree ''width'')" and "0 < parse_svg_length (tree ''height'')"
  shows "extract_svg_dimensions tree
           = (parse_svg_length (tree ''width''), parse_svg_length (tree ''height''))"
  using assms by (simp add: extract_svg_dimensions_def Let_def split: option.split)

lemma extract_not_four:
  assumes "tree ''viewBox'' = Some vb" and "length (view_box_components vb) \<noteq> 4"
  shows "extract_svg_dimensions tree
           = (parse_svg_length (tree ''width''), parse_svg_length (tree ''height''))"
  using assms by (simp add: extract_svg_dimensions_def Let_def)

lemma components_200_100:
  "view_box_components ''0 0 200 100'' = [''0'', ''0'', ''200'', ''100'']"
  by code_simp

lemma parse_200: "parse_svg_length (Some ''200'') = 200" by code_simp
lemma parse_100: "parse_svg_length (Some ''100'') = 100" by code_simp

lemma extract_view_box_200_100:
  assumes "tree ''width'' = None" and "tree ''height'' = None"
    and "tree ''viewBox'' = Some ''0 0 200 100''"
  shows "extract_svg_dimensions tree = (200, 100)"
  using assms
  by (simp add: extract_svg_dimensions_def Let_def parse_svg_length_None components_200_100
      parse_200 parse_100)

text \<open>
  Claim C5. For every document: if \<^verbatim>\<open>width\<close> and \<^verbatim>\<open>height\<close> both parse to positive
  lengths, \<^verbatim>\<open>_extract_svg_dimensions\<close> returns them, whatever \<^verbatim>\<open>viewBox\<close> holds; if
  \<^verbatim>\<open>width\<close> and \<^verbatim>\<open>height\<close> are absent and \<^verbatim>\<open>viewBox\<close> is \<^verbatim>\<open>"0 0 200 100"\<close>, it returns
  (200, 100); a \<^verbatim>\<open>viewBox\<close> that does not split into exactly four components is ignored,
  so that with \<^verbatim>\<open>width\<close> and \<^verbatim>\<open>height\<close> absent and three components the result is
  (0, 0).
\<close>

theorem extract_svg_dimensions_sources:
  "(0 < parse_svg_length (tree ''width'') \<and> 0 < parse_svg_length (tree ''height'')
      \<longrightarrow> extract_svg_dimensions tree
            = (parse_svg_length (tree ''width''), parse_svg_length (tree ''height'')))
   \<and> (tree ''width'' = None \<and> tree ''height'' = None
        \<and> tree ''viewBox'' = Some ''0 0 200 100''
      \<longrightarrow> extract_svg_dimensions tree = (200, 100))
   \<and> (tree ''viewBox'' = Some vb \<and> length (view_box_components vb) \<noteq> 4
      \<longrightarrow> extract_svg_dimensions tree
            = (parse_svg_length (tree ''width''), parse_svg_length (tree ''height'')))
   \<and> (tree ''width'' = None \<and> tree ''height'' = None \<and> tree ''viewBox'' = Some vb
        \<and> length (view_box_components vb) = 3
      \<longrightarrow> extract_svg_dimensions tree = (0, 0))"
proof (intro conjI impI)
  assume "0 < parse_svg_length (tree ''width'') \<and> 0 < parse_svg_length (tree ''height'')"
  then show "extract_svg_dimensions tree
           = (parse_svg_length (tree ''width''), parse_svg_length (tree ''height''))"
    by (simp add: extract_positive_attrs)
next
  assume "tree ''width'' = None \<and> tree ''height'' = None
        \<and> tree ''viewBox'' = Some ''0 0 200 100''"
  then show "extract_svg_dimensions tree = (200, 100)"
    by (simp add: extract_view_box_200_100)
next
  assume "tree ''viewBox'' = Some vb \<and> length (view_box_components vb) \<noteq> 4"
  then show "extract_svg_dimensions tree
           = (parse_svg_length (tree ''width''), parse_svg_length (tree ''height''))"
    by (simp add: extract_not_four)
next
  assume a: "tree ''width'' = None \<and> tree ''height'' = None \<and> tree ''viewBox'' = Some vb
        \<and> length (view_box_components vb) = 3"
  then have "extract_svg_dimensions tree
           = (parse_svg_length (tree ''width''), parse_svg_length (tree ''height''))"
    by (simp add: extract_not_four)
  with a show "extract_svg_dimensions tree = (0, 0)" by (simp add: parse_svg_length_None)
qed

theorem extract_svg_dimensions_sources_witness:
  "0 < parse_svg_length
         ([''width'' \<mapsto> ''300'', ''height'' \<mapsto> ''150px'', ''viewBox'' \<mapsto> ''0 0 200 100''] ''width'')
   \<and> 0 < parse_svg_length
         ([''width'' \<mapsto> ''300'', ''height'' \<mapsto> ''150px'', ''viewBox'' \<mapsto> ''0 0 200 100''] ''height'')
   \<and> extract_svg_dimensions
        [''width'' \<mapsto> ''300'', ''height'' \<mapsto> ''150px'', ''viewBox'' \<mapsto> ''0 0 200 100'']
       = (300, 150)
   \<and> extract_svg_dimensions [''viewBox'' \<mapsto> ''0 0 200 100''] = (200, 100)
   \<and> length (view_box_components ''0, 0 200'') = 3
   \<and> extract_svg_dimensions [''viewBox'' \<mapsto> ''0, 0 200''] = (0, 0)
   \<and> length (view_box_components ''0 0 200 100 7'') \<noteq> 4
   \<and> extract_svg_dimensions [''width'' \<mapsto> ''40'', ''viewBox'' \<mapsto> ''0 0 200 100 7''] = (40, 0)"
proof -
  let ?t1 = "[''width'' \<mapsto> ''300'', ''height'' \<mapsto> ''150px'', ''viewBox'' \<mapsto> ''0 0 200 100'']"
  let ?t2 = "[''viewBox'' \<mapsto> ''0 0 200 100'']"
  let ?t3 = "[''viewBox'' \<mapsto> ''0, 0 200'']"
  let ?t4 = "[''width'' \<mapsto> ''40'', ''viewBox'' \<mapsto> ''0 0 200 100 7'']"
  have w1: "parse_svg_length (?t1 ''width'') = 300" by code_simp
  have h1: "parse_svg_length (?t1 ''height'') = 150" by code_simp
  have p1: "0 < parse_svg_length (?t1 ''width'')" "0 < parse_svg_length (?t1 ''height'')"
    by code_simp+
  have "extract_svg_dimensions ?t1
          = (parse_svg_length (?t1 ''width''), parse_svg_length (?t1 ''height''))"
    using extract_svg_dimensions_sources [of ?t1 "[]"] p1 by (elim conjE) blast
  then have r1: "extract_svg_dimensions ?t1 = (300, 150)" by (simp only: w1 h1)
  have a2: "?t2 ''width'' = None" "?t2 ''height'' = None"
    "?t2 ''viewBox'' = Some ''0 0 200 100''" by simp_all
  have r2: "extract_svg_dimensions ?t2 = (200, 100)"
    using extract_svg_dimensions_sources [of ?t2 "[]"] a2 by (elim conjE) blast
  have a3: "?t3 ''width'' = None" "?t3 ''height'' = None" "?t3 ''viewBox'' = Some ''0, 0 200''"
    by simp_all
  have l3: "length (view_box_components ''0, 0 200'') = 3" by code_simp
  have r3: "extract_svg_dimensions ?t3 = (0, 0)"
    using extract_svg_dimensions_sources [of ?t3 "''0, 0 200''"] a3 l3 by (elim conjE) blast
  have a4: "?t4 ''viewBox'' = Some ''0 0 200 100 7''" by simp
  have l4: "length (view_box_components ''0 0 200 100 7'') \<noteq> 4" by code_simp
  have w4: "parse_svg_length (?t4 ''width'') = 40" "parse_svg_length (?t4 ''height'') = 0"
    by code_simp+
  have "extract_svg_dimensions ?t4
          = (parse_svg_length (?t4 ''width''), parse_svg_length (?t4 ''height''))"
    using extract_svg_dimensions_sources [of ?t4 "''0 0 200 100 7''"] a4 l4
    by (elim conjE) blast
  then have r4: "extract_svg_dimensions ?t4 = (40, 0)" by (simp only: w4)
  from p1 r1 r2 l3 r3 l4 r4 show ?thesis by (intro conjI)
qed

section \<open>Properties of the Bounded Fetcher\<close>

lemma read_chunks_Inr:
  "read_chunks s items buffer = Inr out \<Longrightarrow>
     out = buffer @ chunk_data items \<and> StreamError \<notin> set items
     \<and> (out = buffer \<or> int (length out) \<le> max_svg_bytes s)"
proof (induction s items buffer rule: read_chunks.induct)
  case (1 s buffer)
  then show ?case by simp
next
  case (2 s rest buffer)
  then show ?case by simp
next
  case (3 s chunk rest buffer)
  show ?case
  proof (cases "chunk = []")
    case True
    with "3.prems" have run: "read_chunks s rest buffer = Inr out" by simp
    from "3.IH"(1) [OF True run] True show ?thesis by auto
  next
    case False
    with "3.prems" have ok: "\<not> max_svg_bytes s < int (length (buffer @ chunk))"
      and run: "read_chunks s rest (buffer @ chunk) = Inr out"
      by (simp_all split: if_splits)
    from "3.IH"(2) [OF False ok run]
    have ih: "out = (buffer @ chunk) @ chunk_data rest" "StreamError \<notin> set rest"
      "out = buffer @ chunk \<or> int (length out) \<le> max_svg_bytes s" by auto
    from ih(3) ok have "int (length out) \<le> max_svg_bytes s" by auto
    with ih show ?thesis by simp
  qed
qed

lemma read_chunks_Inl:
  "read_chunks s items buffer = Inl e \<Longrightarrow> e = RequestException \<or> (\<exists>msg. e = ValueError msg)"
  by (induction s items buffer rule: read_chunks.induct) (auto split: if_splits)

lemma py_int_Inl: "py_int t = Inl e \<Longrightarrow> \<exists>msg. e = ValueError msg"
  by (auto simp: py_int_def split: prod.splits if_splits)

lemma check_content_length_Inl:
  "check_content_length s h = Inl e \<Longrightarrow> \<exists>msg. e = ValueError msg"
  by (auto simp: check_content_length_def ebind_def dest: py_int_Inl
      split: option.splits if_splits sum.splits)

lemma fetch_attempt_Inl:
  "fetch_attempt s g = Inl e \<Longrightarrow> e = RequestException \<or> (\<exists>msg. e = ValueError msg)"
  by (auto simp: fetch_attempt_def raise_for_status_def ebind_def
      dest: check_content_length_Inl read_chunks_Inl
      split: get_result.splits sum.splits if_splits)

lemma fetch_svg_Inl: "fetch_svg s g = Inl e \<Longrightarrow> \<exists>msg. e = ValueError msg"
  by (auto simp: fetch_svg_def dest: fetch_attempt_Inl split: sum.splits if_splits)

lemma fetch_svg_Inr_attempt: "fetch_svg s g = Inr b \<longleftrightarrow> fetch_attempt s g = Inr b"
  by (auto simp: fetch_svg_def split: sum.splits if_splits)

lemma fetch_attempt_Inr:
  assumes "fetch_attempt s g = Inr b"
  shows "\<exists>r. g = Response r \<and> \<not> (400 \<le> status_code r \<and> status_code r < 600)
           \<and> check_content_length s (content_length r) = Inr ()
           \<and> read_chunks s (body r) [] = Inr b \<and> bytes_strip b \<noteq> []"
  using assms
  by (auto simp: fetch_attempt_def raise_for_status_def ebind_def
      split: get_result.splits sum.splits if_splits)

lemma fetch_svg_Inr:
  assumes "fetch_svg s g = Inr b"
  shows "\<exists>r. g = Response r \<and> \<not> (400 \<le> status_code r \<and> status_code r < 600)
           \<and> check_content_length s (content_length r) = Inr ()
           \<and> b = chunk_data (body r) \<and> StreamError \<notin> set (body r)
           \<and> int (length b) \<le> max_svg_bytes s \<and> bytes_strip b \<noteq> []"
proof -
  from assms have "fetch_attempt s g = Inr b" by (simp add: fetch_svg_Inr_attempt)
  from fetch_attempt_Inr [OF this] obtain r where r: "g = Response r"
    "\<not> (400 \<le> status_code r \<and> status_code r < 600)"
    "check_content_length s (content_length r) = Inr ()"
    "read_chunks s (body r) [] = Inr b" "bytes_strip b \<noteq> []" by blast
  from read_chunks_Inr [OF r(4)] have d: "b = chunk_data (body r)" "StreamError \<notin> set (body r)"
    "b = [] \<or> int (length b) \<le> max_svg_bytes s" by auto
  from r(5) have "b \<noteq> []" by (auto simp: bytes_strip_def)
  with d(3) have "int (length b) \<le> max_svg_bytes s" by simp
  with r d show ?thesis by blast
qed

lemma fetch_svg_fails_iff:
  "(\<exists>msg. fetch_svg s g = Inl (ValueError msg)) \<longleftrightarrow> (\<forall>b. fetch_svg s g \<noteq> Inr b)"
proof (cases "fetch_svg s g")
  case (Inl e)
  with fetch_svg_Inl [OF Inl] show ?thesis by auto
next
  case (Inr b)
  then show ?thesis by auto
qed

lemma chunk_data_take_le: "length (chunk_data (take k items)) \<le> length (chunk_data items)"
proof (induction items arbitrary: k)
  case Nil
  then show ?case by simp
next
  case (Cons item items)
  show ?case
  proof (cases k)
    case 0
    then show ?thesis by simp
  next
    case (Suc j)
    with Cons [of j] show ?thesis by (cases item) simp_all
  qed
qed

lemma check_content_length_too_large:
  assumes "t \<noteq> []" and "py_int t = Inr n" and "max_svg_bytes s < n"
  shows "check_content_length s (Some t) \<noteq> Inr ()"
  using assms by (simp add: check_content_length_def ebind_def)

lemma check_content_length_malformed:
  assumes "t \<noteq> []" and "py_int t = Inl e"
  shows "check_content_length s (Some t) \<noteq> Inr ()"
  using assms by (simp add: check_content_length_def ebind_def)

lemma fetch_failure_modes:
  shows "g = GetError \<Longrightarrow> fetch_svg s g \<noteq> Inr b"
    and "g = Response r \<Longrightarrow> 400 \<le> status_code r \<and> status_code r < 600 \<Longrightarrow> fetch_svg s g \<noteq> Inr b"
    and "g = Response r \<Longrightarrow> content_length r = Some t \<Longrightarrow> t \<noteq> [] \<Longrightarrow> py_int t = Inr n
           \<Longrightarrow> max_svg_bytes s < n \<Longrightarrow> fetch_svg s g \<noteq> Inr b"
    and "g = Response r \<Longrightarrow> content_length r = Some t \<Longrightarrow> t \<noteq> [] \<Longrightarrow> py_int t = Inl e
           \<Longrightarrow> fetch_svg s g \<noteq> Inr b"
    and "g = Response r \<Longrightarrow> max_svg_bytes s < int (length (chunk_data (take k (body r))))
           \<Longrightarrow> fetch_svg s g \<noteq> Inr b"
    and "g = Response r \<Longrightarrow> StreamError \<in> set (body r) \<Longrightarrow> fetch_svg s g \<noteq> Inr b"
    and "g = Response r \<Longrightarrow> bytes_strip (chunk_data (body r)) = [] \<Longrightarrow> fetch_svg s g \<noteq> Inr b"
proof -
  show "g = GetError \<Longrightarrow> fetch_svg s g \<noteq> Inr b"
    using fetch_svg_Inr [of s g b] by auto
  show "g = Response r \<Longrightarrow> 400 \<le> status_code r \<and> status_code r < 600 \<Longrightarrow> fetch_svg s g \<noteq> Inr b"
    using fetch_svg_Inr [of s g b] by auto
  show "g = Response r \<Longrightarrow> content_length r = Some t \<Longrightarrow> t \<noteq> [] \<Longrightarrow> py_int t = Inr n
           \<Longrightarrow> max_svg_bytes s < n \<Longrightarrow> fetch_svg s g \<noteq> Inr b"
    using fetch_svg_Inr [of s g b] check_content_length_too_large [of t n s] by auto
  show "g = Response r \<Longrightarrow> content_length r = Some t \<Longrightarrow> t \<noteq> [] \<Longrightarrow> py_int t = Inl e
           \<Longrightarrow> fetch_svg s g \<noteq> Inr b"
    using fetch_svg_Inr [of s g b] check_content_length_malformed [of t e s] by auto
  show "g = Response r \<Longrightarrow> max_svg_bytes s < int (length (chunk_data (take k (body r))))
           \<Longrightarrow> fetch_svg s g \<noteq> Inr b"
  proof
    assume g: "g = Response r"
      and over: "max_svg_bytes s < int (length (chunk_data (take k (body r))))"
      and ok: "fetch_svg s g = Inr b"
    from fetch_svg_Inr [OF ok] g have "b = chunk_data (body r)"
      "int (length b) \<le> max_svg_bytes s" by auto
    with chunk_data_take_le [of k "body r"] over show False by simp
  qed
  show "g = Response r \<Longrightarrow> StreamError \<in> set (body r) \<Longrightarrow> fetch_svg s g \<noteq> Inr b"
    using fetch_svg_Inr [of s g b] by auto
  show "g = Response r \<Longrightarrow> bytes_strip (chunk_data (body r)) = [] \<Longrightarrow> fetch_svg s g \<noteq> Inr b"
    using fetch_svg_Inr [of s g b] by auto
qed

lemma render_svg_fetch_failure:
  assumes auth: "is_authorized s (provided_key req)"
    and url: "svg_url req = Some url" "url \<noteq> []" "validate_url env url"
    and fail: "fetch_svg s (http_get env url) = Inl e"
  shows "\<exists>msg. e = ValueError msg \<and> render_svg s env req = Reply 400 (ErrorBody msg)"
proof -
  from fetch_svg_Inl [OF fail] obtain msg where e: "e = ValueError msg" by blast
  from fail have "render_attempt s env url = Inl e" by (simp add: render_attempt_def ebind_def)
  with auth url e have "render_svg s env req = Reply 400 (ErrorBody msg)"
    by (simp add: render_svg_def handle_render_error_def)
  with e show ?thesis by blast
qed

text \<open>
  Claim C6. \<^verbatim>\<open>_fetch_svg\<close> returns a byte sequence only if its length is at most
  \<^verbatim>\<open>max_svg_bytes\<close> and it is not empty after trimming white space. Whatever it raises
  is a \<^verbatim>\<open>ValueError\<close>, and it raises one in each failure mode: an error of the transport
  on the request or in the middle of the stream, a status from 400 to 599, a declared
  \<^verbatim>\<open>Content-Length\<close> above the ceiling, streamed bytes above the ceiling at any point,
  and a body that is empty after trimming. For an authorised request with a valid URL
  the route \<^verbatim>\<open>/render\<close> answers every such failure with status 400.
\<close>

theorem fetch_svg_bounded_client_errors:
  "(fetch_svg s g = Inr b \<longrightarrow> int (length b) \<le> max_svg_bytes s \<and> bytes_strip b \<noteq> [])
   \<and> (fetch_svg s g = Inl e \<longrightarrow> (\<exists>msg. e = ValueError msg))
   \<and> (g = GetError \<longrightarrow> (\<exists>msg. fetch_svg s g = Inl (ValueError msg)))
   \<and> (g = Response r \<and> 400 \<le> status_code r \<and> status_code r < 600
        \<longrightarrow> (\<exists>msg. fetch_svg s g = Inl (ValueError msg)))
   \<and> (g = Response r \<and> content_length r = Some t \<and> t \<noteq> [] \<and> py_int t = Inr n
        \<and> max_svg_bytes s < n
        \<longrightarrow> (\<exists>msg. fetch_svg s g = Inl (ValueError msg)))
   \<and> (g = Response r \<and> max_svg_bytes s < int (length (chunk_data (take k (body r))))
        \<longrightarrow> (\<exists>msg. fetch_svg s g = Inl (ValueError msg)))
   \<and> (g = Response r \<and> StreamError \<in> set (body r)
        \<longrightarrow> (\<exists>msg. fetch_svg s g = Inl (ValueError msg)))
   \<and> (g = Response r \<and> bytes_strip (chunk_data (body r)) = []
        \<longrightarrow> (\<exists>msg. fetch_svg s g = Inl (ValueError msg)))
   \<and> (is_authorized s (provided_key req) \<and> svg_url req = Some url \<and> url \<noteq> []
        \<and> validate_url env url \<and> fetch_svg s (http_get env url) = Inl e
        \<longrightarrow> (\<exists>msg. e = ValueError msg \<and> render_svg s env req = Reply 400 (ErrorBody msg)))"
proof (intro conjI impI)
  assume "fetch_svg s g = Inr b"
  from fetch_svg_Inr [OF this] show "int (length b) \<le> max_svg_bytes s" by blast
next
  assume "fetch_svg s g = Inr b"
  from fetch_svg_Inr [OF this] show "bytes_strip b \<noteq> []" by blast
next
  assume "fetch_svg s g = Inl e"
  then show "\<exists>msg. e = ValueError msg" by (rule fetch_svg_Inl)
next
  assume "g = GetError"
  then show "\<exists>msg. fetch_svg s g = Inl (ValueError msg)"
    unfolding fetch_svg_fails_iff using fetch_failure_modes(1) by blast
next
  assume "g = Response r \<and> 400 \<le> status_code r \<and> status_code r < 600"
  then show "\<exists>msg. fetch_svg s g = Inl (ValueError msg)"
    unfolding fetch_svg_fails_iff using fetch_failure_modes(2) by blast
next
  assume "g = Response r \<and> content_length r = Some t \<and> t \<noteq> [] \<and> py_int t = Inr n
        \<and> max_svg_bytes s < n"
  then show "\<exists>msg. fetch_svg s g = Inl (ValueError msg)"
    unfolding fetch_svg_fails_iff using fetch_failure_modes(3) by blast
next
  assume "g = Response r \<and> max_svg_bytes s < int (length (chunk_data (take k (body r))))"
  then show "\<exists>msg. fetch_svg s g = Inl (ValueError msg)"
    unfolding fetch_svg_fails_iff using fetch_failure_modes(5) by blast
next
  assume "g = Response r \<and> StreamError \<in> set (body r)"
  then show "\<exists>msg. fetch_svg s g = Inl (ValueError msg)"
    unfolding fetch_svg_fails_iff using fetch_failure_modes(6) by blast
next
  assume "g = Response r \<and> bytes_strip (chunk_data (body r)) = []"
  then show "\<exists>msg. fetch_svg s g = Inl (ValueError msg)"
    unfolding fetch_svg_fails_iff using fetch_failure_modes(7) by blast
next
  assume "is_authorized s (provided_key req) \<and> svg_url req = Some url \<and> url \<noteq> []
        \<and> validate_url env url \<and> fetch_svg s (http_get env url) = Inl e"
  then show "\<exists>msg. e = ValueError msg \<and> render_svg s env req = Reply 400 (ErrorBody msg)"
    using render_svg_fetch_failure by blast
qed

theorem fetch_svg_bounded_client_errors_witness:
  "fetch_svg default_settings (Response good_response) = Inr ''<svg></svg>''
   \<and> int (length ''<svg></svg>'') \<le> max_svg_bytes default_settings
   \<and> bytes_strip ''<svg></svg>'' \<noteq> []
   \<and> (\<exists>msg. fetch_svg default_settings GetError = Inl (ValueError msg))
   \<and> (\<exists>msg. fetch_svg default_settings not_found_response = Inl (ValueError msg))
   \<and> py_int ''10000000'' = Inr 10000000
   \<and> (\<exists>msg. fetch_svg default_settings (Response declared_too_large) = Inl (ValueError msg))
   \<and> max_svg_bytes tiny_ceiling_settings
        < int (length (chunk_data (take 2 (body streamed_too_large))))
   \<and> (\<exists>msg. fetch_svg tiny_ceiling_settings (Response streamed_too_large)
               = Inl (ValueError msg))
   \<and> StreamError \<in> set (body broken_stream)
   \<and> (\<exists>msg. fetch_svg default_settings (Response broken_stream) = Inl (ValueError msg))
   \<and> bytes_strip (chunk_data (body blank_body)) = []
   \<and> (\<exists>msg. fetch_svg default_settings (Response blank_body) = Inl (ValueError msg))
   \<and> is_authorized default_settings (provided_key sample_request)
   \<and> (\<exists>msg. render_svg default_settings (sample_env not_found_response empty_store)
               sample_request = Reply 400 (ErrorBody msg))"
proof -
  let ?d = default_settings
  let ?env = "sample_env not_found_response empty_store"
  let ?url = "''http://host/a.svg''"
  note T = fetch_svg_bounded_client_errors
  have ok: "fetch_svg ?d (Response good_response) = Inr ''<svg></svg>''" by code_simp
  from T [where s = ?d and g = "Response good_response" and b = "''<svg></svg>''"
      and e = OSError and r = good_response and t = "[]" and n = 0 and k = 0
      and req = sample_request and url = "[]" and env = ?env] ok
  have r0: "int (length ''<svg></svg>'') \<le> max_svg_bytes ?d \<and> bytes_strip ''<svg></svg>'' \<noteq> []"
    by (elim conjE) blast
  from T [where s = ?d and g = GetError and b = "[]"
      and e = OSError and r = good_response and t = "[]" and n = 0 and k = 0
      and req = sample_request and url = "[]" and env = ?env]
  have r1: "\<exists>msg. fetch_svg ?d GetError = Inl (ValueError msg)"
    by (elim conjE) blast
  have h2: "not_found_response = Response \<lparr>status_code = 404, content_length = None,
              body = [Chunk ''not found'']\<rparr>" by (simp add: not_found_response_def)
  from T [where s = ?d and g = not_found_response and b = "[]"
      and e = OSError and r = "\<lparr>status_code = 404, content_length = None,
              body = [Chunk ''not found'']\<rparr>" and t = "[]" and n = 0 and k = 0
      and req = sample_request and url = "[]" and env = ?env] h2
  have r2: "\<exists>msg. fetch_svg ?d not_found_response = Inl (ValueError msg)"
    by (elim conjE) simp
  have h3: "content_length declared_too_large = Some ''10000000''" "''10000000'' \<noteq> []"
    "py_int ''10000000'' = Inr 10000000" "max_svg_bytes ?d < 10000000"
    by (simp_all add: declared_too_large_def default_settings_def py_int_def take_sign_def
        py_strip_def is_space_def is_digit_def digits_value_def digit_value_def)
  from T [where s = ?d and g = "Response declared_too_large" and b = "[]"
      and e = OSError and r = declared_too_large and t = "''10000000''" and n = 10000000
      and k = 0 and req = sample_request and url = "[]" and env = ?env] h3
  have r3: "\<exists>msg. fetch_svg ?d (Response declared_too_large) = Inl (ValueError msg)"
    by (elim conjE) blast
  have h4: "max_svg_bytes tiny_ceiling_settings
        < int (length (chunk_data (take 2 (body streamed_too_large))))" by code_simp
  from T [where s = tiny_ceiling_settings and g = "Response streamed_too_large" and b = "[]"
      and e = OSError and r = streamed_too_large and t = "[]" and n = 0
      and k = 2 and req = sample_request and url = "[]" and env = ?env] h4
  have r4: "\<exists>msg. fetch_svg tiny_ceiling_settings (Response streamed_too_large)
               = Inl (ValueError msg)"
    by (elim conjE) blast
  have h5: "StreamError \<in> set (body broken_stream)" by (simp add: broken_stream_def)
  from T [where s = ?d and g = "Response broken_stream" and b = "[]"
      and e = OSError and r = broken_stream and t = "[]" and n = 0
      and k = 0 and req = sample_request and url = "[]" and env = ?env] h5
  have r5: "\<exists>msg. fetch_svg ?d (Response broken_stream) = Inl (ValueError msg)"
    by (elim conjE) blast
  have h6: "bytes_strip (chunk_data (body blank_body)) = []" by code_simp
  from T [where s = ?d and g = "Response blank_body" and b = "[]"
      and e = OSError and r = blank_body and t = "[]" and n = 0
      and k = 0 and req = sample_request and url = "[]" and env = ?env] h6
  have r6: "\<exists>msg. fetch_svg ?d (Response blank_body) = Inl (ValueError msg)"
    by (elim conjE) blast
  have h7: "is_authorized ?d (provided_key sample_request)" by code_simp
  have h7': "svg_url sample_request = Some ?url" "?url \<noteq> []" "validate_url ?env ?url"
    "http_get ?env ?url = not_found_response"
    by (simp_all add: sample_request_def sample_env_def)
  obtain m where m: "fetch_svg ?d not_found_response = Inl (ValueError m)"
    using r2 by blast
  from T [where s = ?d and g = GetError and b = "[]"
      and e = "ValueError m" and r = good_response and t = "[]" and n = 0
      and k = 0 and req = sample_request and url = ?url and env = ?env] h7 h7' m
  have r7: "\<exists>msg. render_svg ?d ?env sample_request = Reply 400 (ErrorBody msg)"
    by (elim conjE) simp
  from ok r0 r1 r2 h3(3) r3 h4 r4 h5 r5 h6 r6 h7 r7 show ?thesis by (intro conjI) blast+
qed

section \<open>Properties of the Pruner and of the route\<close>











section \<open>Runs of the route\<close>



lemma fetch_good_response:
  "fetch_svg default_settings (Response good_response) = Inr ''<svg></svg>''"
  by code_simp

lemma sample_request_accepted:
  "is_authorized default_settings (provided_key sample_request)"
  "svg_url sample_request = Some ''http://host/a.svg''"
  by code_simp+



section \<open>Overflow in the Scale Resolver\<close>

lemma int_div_raises_overflow: "w \<noteq> 0 \<Longrightarrow> int_div n w = Inl e \<Longrightarrow> e = OverflowError"
  by (cases rule: int_div_cases [where w = w and n = n]) simp_all

lemma round_to_int_raises: "round_to_int x = Inl e \<Longrightarrow> e \<noteq> ZeroDivisionError"
  by (cases x) auto

lemma steps_raise_overflow:
  assumes "w \<noteq> 0"
  shows "min_width_step s w = Inl e \<Longrightarrow> e = OverflowError"
    and "max_width_step s w scale = Inl e \<Longrightarrow> e = OverflowError"
    and "max_height_step s w scale = Inl e \<Longrightarrow> e = OverflowError"
  using assms
  by (auto simp: min_width_step_def max_width_step_def max_height_step_def ebind_def
      dest: int_div_raises_overflow split: if_splits sum.splits)

lemma compute_scale_no_zero_division:
  assumes m: "0 < min_output_width s"
  shows "compute_scale s width height \<noteq> Inl ZeroDivisionError"
proof -
  have pos: "compute_scale s width height \<noteq> Inl ZeroDivisionError"
    if sub: "substitute_degenerate s width height = Inr (w, h)" and w: "w \<noteq> 0" and h: "h \<noteq> 0"
    for w h
  proof
    assume z: "compute_scale s width height = Inl ZeroDivisionError"
    note st = compute_scale_steps [OF sub]
    from z show False
      unfolding st ebind_def
      by (auto split: sum.splits
          dest: steps_raise_overflow(1) [OF w] steps_raise_overflow(2) [OF w]
            steps_raise_overflow(3) [OF h] round_to_int_raises)
  qed
  show ?thesis
  proof (cases rule: substitute_degenerate_cases [where s = s and width = width and height = height])
    case regular
    then show ?thesis using pos [of width height] by simp
  next
    case raised
    then show ?thesis by (simp add: compute_scale_def ebind_def)
  next
    case fallback
    from m have "real_of_int (min_output_width s) \<noteq> 0" by simp
    with fallback(3) show ?thesis using pos by blast
  qed
qed

lemma small_times_bound: "0 < c \<Longrightarrow> b \<le> c \<Longrightarrow> (1 / c) * b \<le> (1 :: real)"
  by (simp add: field_simps)

lemma tiny_inputs_overflow:
  assumes w: "0 < w" "w * overflow_bound \<le> 1" and h: "0 < h" "h * overflow_bound \<le> 1"
    and m: "1 \<le> min_output_width s" "1 \<le> max_output_width s" "1 \<le> max_output_height s"
    and r: "in_float_range (min_output_width s)" "in_float_range (max_output_width s)"
      "in_float_range (max_output_height s)"
  shows "compute_scale s w h = Inl OverflowError"
proof -
  have big: "overflow_bound \<le> real_of_int n / x" if "1 \<le> n" "0 < x" "x * overflow_bound \<le> 1"
    for n x
  proof -
    from that have "overflow_bound \<le> 1 / x" by (simp add: field_simps)
    also from that have "1 / x \<le> real_of_int n / x" by (simp add: divide_right_mono)
    finally show ?thesis .
  qed
  have one: "1 < overflow_bound"
  proof -
    have "(1 :: real) < 2 ^ 20" by simp
    with overflow_bound_gt_small show ?thesis by linarith
  qed
  have sub: "substitute_degenerate s w h = Inr (w, h)"
    using w h by (simp add: substitute_degenerate_def)
  have "w * overflow_bound < overflow_bound" using w(2) one by linarith
  with overflow_bound_pos have "w < 1" by simp
  with m(1) have lt: "w < real_of_int (min_output_width s)" by simp
  have q1: "to_float (real_of_int (min_output_width s) / w) = PosInf"
    by (rule to_float_PosInf) (rule big [OF m(1) w])
  have q2: "to_float (real_of_int (max_output_width s) / w) = PosInf"
    by (rule to_float_PosInf) (rule big [OF m(2) w])
  have q3: "to_float (real_of_int (max_output_height s) / h) = PosInf"
    by (rule to_float_PosInf) (rule big [OF m(3) h])
  have s1: "min_width_step s w = Inr PosInf"
    using lt w r q1
    by (simp add: min_width_step_def int_div_def float_of_int_def py_div_def ebind_def)
  have s2: "max_width_step s w PosInf = Inr PosInf"
    using w r q2
    by (simp add: max_width_step_def max_width_binds_def int_div_def float_of_int_def
        py_div_def ebind_def)
  have s3: "max_height_step s h PosInf = Inr PosInf"
    using h r q3
    by (simp add: max_height_step_def max_height_binds_def int_div_def float_of_int_def
        py_div_def ebind_def)
  from s1 s2 s3 have fs: "final_scale s w h = Inr PosInf"
    by (simp add: compute_scale_steps(1) [OF sub] ebind_def)
  from w show ?thesis by (simp add: compute_scale_steps(2) [OF sub] fs ebind_def)
qed

lemma compute_scale_tiny:
  "compute_scale default_settings tiny_length tiny_length = Inl OverflowError"
proof -
  have p: "(0 :: real) < 10 ^ 320" by (rule zero_less_power) simp
  then have w: "0 < tiny_length"
    unfolding tiny_length_def by (simp only: zero_less_divide_1_iff)
  have b: "tiny_length * overflow_bound \<le> 1"
    unfolding tiny_length_def by (rule small_times_bound [OF p overflow_bound_le_ten_pow])
  have m: "1 \<le> min_output_width default_settings" "1 \<le> max_output_width default_settings"
    "1 \<le> max_output_height default_settings" by (simp_all add: default_settings_def)
  have r: "in_float_range (min_output_width default_settings)"
    "in_float_range (max_output_width default_settings)"
    "in_float_range (max_output_height default_settings)"
    by (rule in_float_range_small, simp add: default_settings_def)+
  from tiny_inputs_overflow [OF w b w b m r] show ?thesis .
qed

lemma tiny_parse: "parse_svg_length (Some tiny_length_text) = tiny_length"
  by code_simp

lemma tiny_extract: "extract_svg_dimensions tiny_tree = (tiny_length, tiny_length)"
proof -
  have "tiny_tree ''width'' = Some tiny_length_text" "tiny_tree ''height'' = Some tiny_length_text"
    "tiny_tree ''viewBox'' = None"
    by (simp_all add: tiny_tree_def)
  then show ?thesis by (simp add: extract_svg_dimensions_def tiny_parse)
qed

text \<open>
  Claim C10 says that, provided \<open>min_output_width > 0\<close>, \<^verbatim>\<open>_compute_scale\<close> never divides
  by zero and always returns a pair of integers each at least 1. The first half holds
  (\<open>compute_scale_no_zero_division\<close>). The second does not: for a width and a height of
  \<open>1 / 10 ^ 320\<close>, which the attribute text \<^verbatim>\<open>0.\<close>, 319 zeros, \<^verbatim>\<open>1\<close> gives, the quotient
  \<^verbatim>\<open>min_output_width / width\<close> is infinite, both ceilings divide to infinity again, and
  \<^verbatim>\<open>round\<close> raises \<^verbatim>\<open>OverflowError\<close>, which leaves \<^verbatim>\<open>render_svg\<close> uncaught.
\<close>

theorem compute_scale_overflow_on_subnormal:
  "0 < min_output_width default_settings
   \<and> tiny_length = 1 / 10 ^ 320
   \<and> extract_svg_dimensions tiny_tree = (tiny_length, tiny_length)
   \<and> compute_scale default_settings tiny_length tiny_length = Inl OverflowError
   \<and> render_svg default_settings tiny_env sample_request = Propagated OverflowError"
proof -
  have m: "0 < min_output_width default_settings" by (simp add: default_settings_def)
  have env: "validate_url tiny_env ''http://host/a.svg''"
    "http_get tiny_env ''http://host/a.svg'' = Response good_response"
    "parse_tree tiny_env ''<svg></svg>'' = Inr tiny_tree"
    by (simp_all add: tiny_env_def sample_env_def)
  have conv: "convert_svg_to_png default_settings tiny_env ''<svg></svg>'' = Inl OverflowError"
    by (simp add: convert_svg_to_png_def env tiny_extract compute_scale_tiny ebind_def)
  have att: "render_attempt default_settings tiny_env ''http://host/a.svg'' = Inl OverflowError"
    by (simp add: render_attempt_def env fetch_good_response conv ebind_def)
  have "render_svg default_settings tiny_env sample_request = Propagated OverflowError"
    using sample_request_accepted env(1)
    by (simp add: render_svg_def att handle_render_error_def)
  with m tiny_length_def tiny_extract compute_scale_tiny show ?thesis by (intro conjI)
qed

end
